theory Spec2Isabelle
  imports Main
begin

section \<open>Texts and character classes\<close>

text \<open>
  A JavaScript string is a sequence of UTF-16 code units; it is modelled as the list of
  their numbers (integers from 0 to 65535; the functions below treat any other integer
  as an ordinary character). The literals of the source are ASCII and are written as HOL strings,
  which \<open>str\<close> turns into texts. The character tests are the ECMAScript ones: \<open>\s\<close> and
  \<open>trim\<close> know the white space and line terminator code units, \<open>\d\<close> and \<open>\w\<close> are
  ASCII, and the \<open>i\<close> flag (without the \<open>u\<close> flag) lets a letter of a pattern match its
  two ASCII cases only, because no code unit from 128 on canonicalises to one below.
\<close>

type_synonym jstring = "int list"

definition cu :: "char \<Rightarrow> int" where
  "cu c = of_char c"

definition str :: "string \<Rightarrow> jstring" where
  "str s = map cu s"


definition isSpace :: "int \<Rightarrow> bool" where
  "isSpace c \<longleftrightarrow>
     c \<in> {0x09, 0x0A, 0x0B, 0x0C, 0x0D, 0x20, 0xA0, 0x1680, 0x2028, 0x2029, 0x202F, 0x205F,
          0x3000, 0xFEFF}
     \<or> (0x2000 \<le> c \<and> c \<le> 0x200A)"

definition isDigit :: "int \<Rightarrow> bool" where
  "isDigit c \<longleftrightarrow> 48 \<le> c \<and> c \<le> 57"

definition isUpper :: "int \<Rightarrow> bool" where
  "isUpper c \<longleftrightarrow> 65 \<le> c \<and> c \<le> 90"

definition isLower :: "int \<Rightarrow> bool" where
  "isLower c \<longleftrightarrow> 97 \<le> c \<and> c \<le> 122"

definition toLower :: "int \<Rightarrow> int" where
  "toLower c = (if isUpper c then c + 32 else c)"

definition isLineTerm :: "int \<Rightarrow> bool" where
  "isLineTerm c \<longleftrightarrow> c = 0x0A \<or> c = 0x0D \<or> c = 0x2028 \<or> c = 0x2029"

text \<open>The character classes that occur in the regular expressions of the source.\<close>

datatype cls =
    Ch char          \<comment> \<open>a literal character\<close>
  | Ci char          \<comment> \<open>a literal character under the \<open>i\<close> flag\<close>
  | Space            \<comment> \<open>\<open>\s\<close>\<close>
  | Digit            \<comment> \<open>\<open>\d\<close>\<close>
  | WordC            \<comment> \<open>\<open>\w\<close>\<close>
  | Dot              \<comment> \<open>\<open>.\<close>\<close>
  | AnyC             \<comment> \<open>\<open>[\s\S]\<close>\<close>
  | Cu int           \<comment> \<open>a literal code unit outside ASCII\<close>
  | Rng char char    \<comment> \<open>a range \<open>a-z\<close>\<close>
  | Neg cls          \<comment> \<open>\<open>[^...]\<close>\<close>
  | Or cls cls       \<comment> \<open>union inside \<open>[...]\<close>\<close>

fun inCls :: "cls \<Rightarrow> int \<Rightarrow> bool" where
  "inCls (Ch a) c = (c = cu a)"
| "inCls (Ci a) c = (toLower c = toLower (cu a))"
| "inCls (Cu n) c = (c = n)"
| "inCls Space c = isSpace c"
| "inCls Digit c = isDigit c"
| "inCls WordC c = (isUpper c \<or> isLower c \<or> isDigit c \<or> c = cu CHR ''_'')"
| "inCls Dot c = (\<not> isLineTerm c)"
| "inCls AnyC c = True"
| "inCls (Rng a b) c = (cu a \<le> c \<and> c \<le> cu b)"
| "inCls (Neg k) c = (\<not> inCls k c)"
| "inCls (Or k l) c = (inCls k c \<or> inCls l c)"

section \<open>Regular expressions with backtracking\<close>

text \<open>
  A regular expression is a sequence of atoms. Every quantifier of the source stands on a
  single character class, so \<open>Many g n c\<close> covers them all: \<open>c*\<close> is \<open>Many True 0 c\<close>,
  \<open>c+\<close> is \<open>Many True 1 c\<close>, \<open>c{3,}\<close> is \<open>Many True 3 c\<close>, and the lazy \<open>c*?\<close>, \<open>c+?\<close>
  are \<open>Many False 0 c\<close>, \<open>Many False 1 c\<close>. \<open>Bol m\<close> and \<open>Eol m\<close> are \<open>^\<close> and \<open>$\<close>, with
  \<open>m\<close> the multiline flag. \<open>Alt a b\<close> is \<open>(?:a|b)\<close>, so \<open>(?:a)?\<close> is \<open>Alt a []\<close>.
  \<open>Ahead a\<close> is the lookahead \<open>(?=a)\<close>. \<open>Mark\<close> stands at each parenthesis of a capture
  group and records the text that is left at this point.
\<close>

datatype atom =
    One cls
  | Many bool nat cls
  | Bol bool
  | Eol bool
  | Alt "atom list" "atom list"
  | Ahead "atom list"
  | Mark

definition atBol :: "bool \<Rightarrow> int option \<Rightarrow> bool" where
  "atBol m p = (case p of None \<Rightarrow> True | Some c \<Rightarrow> m \<and> isLineTerm c)"

definition atEol :: "bool \<Rightarrow> jstring \<Rightarrow> bool" where
  "atEol m s = (case s of [] \<Rightarrow> True | c # _ \<Rightarrow> m \<and> isLineTerm c)"

text \<open>
  \<open>rmatch k p s\<close> matches the sequence \<open>k\<close> at the head of \<open>s\<close>, where \<open>p\<close> is the character
  before \<open>s\<close> in the whole text (\<open>None\<close> at its start). It tries the alternatives in the
  order of the ECMAScript backtracking matcher and returns the first success: the
  recorded marks and the text left after the match.
\<close>

fun rmatch :: "atom list \<Rightarrow> int option \<Rightarrow> jstring \<Rightarrow> (jstring list \<times> jstring) option" where
  "rmatch [] p s = Some ([], s)"
| "rmatch (One c # k) p s =
     (case s of [] \<Rightarrow> None
      | x # xs \<Rightarrow> if inCls c x then rmatch k (Some x) xs else None)"
| "rmatch (Many g n c # k) p s =
     (if 0 < n then
        (case s of [] \<Rightarrow> None
         | x # xs \<Rightarrow> if inCls c x then rmatch (Many g (n - 1) c # k) (Some x) xs else None)
      else if g then
        (case (case s of [] \<Rightarrow> None
               | x # xs \<Rightarrow> if inCls c x then rmatch (Many g 0 c # k) (Some x) xs else None) of
           Some r \<Rightarrow> Some r
         | None \<Rightarrow> rmatch k p s)
      else
        (case rmatch k p s of
           Some r \<Rightarrow> Some r
         | None \<Rightarrow>
            (case s of [] \<Rightarrow> None
             | x # xs \<Rightarrow> if inCls c x then rmatch (Many g 0 c # k) (Some x) xs else None)))"
| "rmatch (Bol m # k) p s = (if atBol m p then rmatch k p s else None)"
| "rmatch (Eol m # k) p s = (if atEol m s then rmatch k p s else None)"
| "rmatch (Alt a b # k) p s =
     (case rmatch (a @ k) p s of Some r \<Rightarrow> Some r | None \<Rightarrow> rmatch (b @ k) p s)"
| "rmatch (Ahead a # k) p s =
     (case rmatch a p s of None \<Rightarrow> None | Some _ \<Rightarrow> rmatch k p s)"
| "rmatch (Mark # k) p s =
     (case rmatch k p s of None \<Rightarrow> None | Some (ms, r) \<Rightarrow> Some (s # ms, r))"

definition lit :: "string \<Rightarrow> atom list" where
  "lit s = map (\<lambda>c. One (Ch c)) s"

definition liti :: "string \<Rightarrow> atom list" where
  "liti s = map (\<lambda>c. One (Ci c)) s"

text \<open>The part of \<open>s\<close> in front of its suffix \<open>r\<close>: the matched text, or a capture.\<close>

definition taken :: "jstring \<Rightarrow> jstring \<Rightarrow> jstring" where
  "taken s r = take (length s - length r) s"

text \<open>
  \<open>String.prototype.match\<close> with a regular expression without the \<open>g\<close> flag: the leftmost
  match, as the matched text and the marks.
\<close>

fun jsMatchFrom :: "atom list \<Rightarrow> int option \<Rightarrow> jstring \<Rightarrow> (jstring \<times> jstring list) option" where
  "jsMatchFrom r p [] =
     (case rmatch r p [] of None \<Rightarrow> None | Some (ms, rest) \<Rightarrow> Some ([], ms))"
| "jsMatchFrom r p (x # xs) =
     (case rmatch r p (x # xs) of
        None \<Rightarrow> jsMatchFrom r (Some x) xs
      | Some (ms, rest) \<Rightarrow> Some (taken (x # xs) rest, ms))"

definition jsMatch :: "atom list \<Rightarrow> jstring \<Rightarrow> (jstring \<times> jstring list) option" where
  "jsMatch r s = jsMatchFrom r None s"

definition jsTest :: "atom list \<Rightarrow> jstring \<Rightarrow> bool" where
  "jsTest r s \<longleftrightarrow> jsMatch r s \<noteq> None"

text \<open>
  The matches of a \<open>g\<close>-flagged expression from left to right, as \<open>matchAll\<close>, \<open>replace\<close> and
  an \<open>exec\<close> loop visit them. \<open>n\<close> counts the characters still covered by the previous
  match; after a match of length \<open>l\<close> the search resumes \<open>l\<close> characters on, and one
  character on after an empty match.
\<close>

fun matchAllFrom :: "atom list \<Rightarrow> nat \<Rightarrow> int option \<Rightarrow> jstring \<Rightarrow> (jstring \<times> jstring list) list" where
  "matchAllFrom r n p [] =
     (if n = 0 then
        (case rmatch r p [] of None \<Rightarrow> [] | Some (ms, rest) \<Rightarrow> [([], ms)])
      else [])"
| "matchAllFrom r n p (x # xs) =
     (if 0 < n then matchAllFrom r (n - 1) (Some x) xs
      else case rmatch r p (x # xs) of
          None \<Rightarrow> matchAllFrom r 0 (Some x) xs
        | Some (ms, rest) \<Rightarrow>
            (taken (x # xs) rest, ms)
              # matchAllFrom r (length (taken (x # xs) rest) - 1) (Some x) xs)"

definition jsMatchAll :: "atom list \<Rightarrow> jstring \<Rightarrow> (jstring \<times> jstring list) list" where
  "jsMatchAll r s = matchAllFrom r 0 None s"

text \<open>
  \<open>String.prototype.replace\<close> with a \<open>g\<close>-flagged expression; \<open>f\<close> gives the replacement
  from the matched text and the marks.
\<close>

fun replaceFrom ::
  "atom list \<Rightarrow> (jstring \<Rightarrow> jstring list \<Rightarrow> jstring) \<Rightarrow> nat \<Rightarrow> int option \<Rightarrow> jstring \<Rightarrow> jstring" where
  "replaceFrom r f n p [] =
     (if n = 0 then
        (case rmatch r p [] of None \<Rightarrow> [] | Some (ms, rest) \<Rightarrow> f [] ms)
      else [])"
| "replaceFrom r f n p (x # xs) =
     (if 0 < n then replaceFrom r f (n - 1) (Some x) xs
      else case rmatch r p (x # xs) of
          None \<Rightarrow> x # replaceFrom r f 0 (Some x) xs
        | Some (ms, rest) \<Rightarrow>
            (if taken (x # xs) rest = []
             then f [] ms @ x # replaceFrom r f 0 (Some x) xs
             else f (taken (x # xs) rest) ms
                    @ replaceFrom r f (length (taken (x # xs) rest) - 1) (Some x) xs))"

definition jsReplace :: "atom list \<Rightarrow> (jstring \<Rightarrow> jstring list \<Rightarrow> jstring) \<Rightarrow> jstring \<Rightarrow> jstring" where
  "jsReplace r f s = replaceFrom r f 0 None s"

text \<open>Replacement by a fixed string.\<close>

definition jsReplaceWith :: "atom list \<Rightarrow> jstring \<Rightarrow> jstring \<Rightarrow> jstring" where
  "jsReplaceWith r w s = jsReplace r (\<lambda>m ms. w) s"

text \<open>\<open>String.prototype.trim\<close>, \<open>startsWith\<close>, \<open>endsWith\<close>, \<open>includes\<close>, \<open>toLowerCase\<close>.\<close>

definition trim :: "jstring \<Rightarrow> jstring" where
  "trim s = rev (dropWhile isSpace (rev (dropWhile isSpace s)))"

definition startsWith :: "jstring \<Rightarrow> char \<Rightarrow> bool" where
  "startsWith s c = (case s of [] \<Rightarrow> False | x # _ \<Rightarrow> x = cu c)"

definition endsWith :: "jstring \<Rightarrow> char \<Rightarrow> bool" where
  "endsWith s c = (case rev s of [] \<Rightarrow> False | x # _ \<Rightarrow> x = cu c)"

fun isPrefixOf :: "jstring \<Rightarrow> jstring \<Rightarrow> bool" where
  "isPrefixOf [] s = True"
| "isPrefixOf (k # ks) [] = False"
| "isPrefixOf (k # ks) (x # xs) = (k = x \<and> isPrefixOf ks xs)"

fun jsIncludes :: "jstring \<Rightarrow> jstring \<Rightarrow> bool" where
  "jsIncludes [] k = (k = [])"
| "jsIncludes (x # xs) k = (isPrefixOf k (x # xs) \<or> jsIncludes xs k)"

definition toLowerCase :: "jstring \<Rightarrow> jstring" where
  "toLowerCase s = map toLower s"

text \<open>The first and the second capture group, read off the marks.\<close>

definition group1 :: "jstring list \<Rightarrow> jstring" where
  "group1 ms = (case ms of a # b # _ \<Rightarrow> taken a b | _ \<Rightarrow> [])"


section \<open>The response parser (parser.js)\<close>

subsection \<open>stripBrackets\<close>

text \<open>
  The loop that peels the brackets around the whole text:
  \<^verbatim>\<open>while ((text.startsWith('[') && text.endsWith(']')) || ... ) {
     text = text.substring(1, text.length - 1).trim(); }\<close>
\<close>

definition wrapped :: "jstring \<Rightarrow> bool" where
  "wrapped t \<longleftrightarrow>
     (startsWith t CHR ''['' \<and> endsWith t CHR '']'') \<or>
     (startsWith t CHR ''{'' \<and> endsWith t CHR ''}'') \<or>
     (startsWith t CHR ''('' \<and> endsWith t CHR '')'')"

lemma length_trim_le: "length (trim s) \<le> length s"
  unfolding trim_def
  by (metis length_rev length_dropWhile_le le_trans)

lemma wrapped_nonempty: "wrapped t \<Longrightarrow> t \<noteq> []"
  by (auto simp: wrapped_def startsWith_def)

function unwrapAll :: "jstring \<Rightarrow> jstring" where
  "unwrapAll t = (if wrapped t then unwrapAll (trim (butlast (tl t))) else t)"
  by pat_completeness auto
termination
proof (relation "measure length")
  show "wf (measure length)" by simp
next
  fix t :: jstring
  assume w: "wrapped t"
  then have "t \<noteq> []" by (rule wrapped_nonempty)
  then have "length (butlast (tl t)) < length t" by (cases t) auto
  with length_trim_le [of "butlast (tl t)"]
  show "(trim (butlast (tl t)), t) \<in> measure length" by simp
qed

declare unwrapAll.simps [simp del]

text \<open>\<open>/\[([A-Za-z\s\/]+)\]/g\<close> and the callback \<open>isPlaceholder\<close>.\<close>

definition phCls :: cls where
  "phCls = Or (Rng CHR ''A'' CHR ''Z'') (Or (Rng CHR ''a'' CHR ''z'') (Or Space (Ch CHR ''/'')))"

definition placeholderPattern :: "atom list" where
  "placeholderPattern = [One (Ch CHR ''[''), Mark, Many True 1 phCls, Mark, One (Ch CHR '']'')]"

definition placeholderKeywords :: "string list" where
  "placeholderKeywords =
     [''location'', ''mood'', ''emoji'', ''name'', ''description'', ''placeholder'',
      ''time'', ''date'', ''weather'', ''temperature'', ''action'', ''appearance'',
      ''skill'', ''quest'', ''item'', ''character'', ''field'', ''value'', ''details'',
      ''relationship'', ''thoughts'', ''stat'', ''status'', ''lover'', ''friend'',
      ''enemy'', ''neutral'', ''weekday'', ''month'', ''year'', ''forecast'']"

text \<open>
  \<open>s.split(/\s+/).length\<close>: one more than the number of whitespace runs. \<open>toLowerCase\<close> is
  only applied to a capture of \<open>placeholderPattern\<close>, whose letters are ASCII.
\<close>

definition wordCount :: "jstring \<Rightarrow> nat" where
  "wordCount s = Suc (length (jsMatchAll [Many True 1 Space] s))"

definition isPlaceholder :: "jstring \<Rightarrow> bool" where
  "isPlaceholder content =
     (if list_ex (\<lambda>keyword. jsIncludes (trim (toLowerCase content)) (str keyword))
           placeholderKeywords
      then True
      else if wordCount (trim content) \<le> 3
              \<and> jsTest [Bol False, Many True 1 phCls, Eol False] content
      then True
      else False)"

definition labelCls :: cls where
  "labelCls = Or (Rng CHR ''A'' CHR ''Z'') (Or (Rng CHR ''a'' CHR ''z'') Space)"

text \<open>The five clean-up expressions and the two whitespace ones, in the source's order.\<close>

definition emptyLabelRx :: "atom list" where
  \<comment> \<open>\<open>/^([A-Za-z\s]+):\s*$/gm\<close>\<close>
  "emptyLabelRx = [Bol True, Mark, Many True 1 labelCls, Mark, One (Ch CHR '':''),
                   Many True 0 Space, Eol True]"

definition labelCommaRx :: "atom list" where
  \<comment> \<open>\<open>/^([A-Za-z\s]+):\s*,/gm\<close>\<close>
  "labelCommaRx = [Bol True, Mark, Many True 1 labelCls, Mark, One (Ch CHR '':''),
                   Many True 0 Space, One (Ch CHR '','')]"

definition colonPipeRx :: "atom list" where
  \<comment> \<open>\<open>/:\s*\|/g\<close>\<close>
  "colonPipeRx = [One (Ch CHR '':''), Many True 0 Space, One (Ch CHR ''|'')]"

definition pipePipeRx :: "atom list" where
  \<comment> \<open>\<open>/\|\s*\|/g\<close>\<close>
  "pipePipeRx = [One (Ch CHR ''|''), Many True 0 Space, One (Ch CHR ''|'')]"

definition pipeEndRx :: "atom list" where
  \<comment> \<open>\<open>/\|\s*$/gm\<close>\<close>
  "pipeEndRx = [One (Ch CHR ''|''), Many True 0 Space, Eol True]"

definition spacesRx :: "atom list" where
  \<comment> \<open>\<open>/\s{2,}/g\<close>\<close>
  "spacesRx = [Many True 2 Space]"

definition emptyLineRx :: "atom list" where
  \<comment> \<open>\<open>/^\s*\n/gm\<close>\<close>
  "emptyLineRx = [Bol True, Many True 0 Space, One (Ch CHR 0x0A)]"

definition removePlaceholders :: "jstring \<Rightarrow> jstring" where
  "removePlaceholders t =
     jsReplace placeholderPattern (\<lambda>m ms. if isPlaceholder (group1 ms) then [] else m) t"

definition cleanLabels :: "jstring \<Rightarrow> jstring" where
  "cleanLabels t =
     jsReplaceWith pipeEndRx []
       (jsReplaceWith pipePipeRx (str ''|'')
         (jsReplaceWith colonPipeRx (str '':'')
           (jsReplace labelCommaRx (\<lambda>m ms. group1 ms @ str '':'')
             (jsReplaceWith emptyLabelRx [] t))))"

definition cleanSpaces :: "jstring \<Rightarrow> jstring" where
  "cleanSpaces t = jsReplaceWith emptyLineRx [] (jsReplaceWith spacesRx (str '' '') t)"

definition stripBrackets :: "jstring \<Rightarrow> jstring" where
  "stripBrackets text =
     (if text = [] then text
      else trim (cleanSpaces (cleanLabels (removePlaceholders (unwrapAll (trim text))))))"

subsection \<open>parseResponse\<close>

text \<open>
  The snapshot that \<open>parseResponse\<close> returns and that is stored per swipe: three tracker
  texts and the raw text of the action suggestions block. \<open>null\<close> is \<open>None\<close>.
  \<open>lastGeneratedData\<close> and \<open>committedTrackerData\<close> hold the three tracker fields (the
  \<open>html\<close> field of \<open>lastGeneratedData\<close> is touched by no function modelled here).
\<close>

record tracker =
  userStats :: "jstring option"
  infoBox :: "jstring option"
  characterThoughts :: "jstring option"

record snapshot = tracker +
  actionSuggestions :: "jstring option"

definition nullSnapshot :: snapshot where
  "nullSnapshot = \<lparr>userStats = None, infoBox = None, characterThoughts = None,
                    actionSuggestions = None\<rparr>"

text \<open>JavaScript truthiness of a value that is a string or \<open>null\<close>.\<close>

definition truthy :: "jstring option \<Rightarrow> bool" where
  "truthy v = (case v of None \<Rightarrow> False | Some s \<Rightarrow> s \<noteq> [])"

definition stripThinking :: "jstring \<Rightarrow> jstring" where
  \<comment> \<open>\<open>/<think>[\s\S]*?<\/think>/gi\<close>, then \<open>/<thinking>[\s\S]*?<\/thinking>/gi\<close>\<close>
  "stripThinking t =
     jsReplaceWith (liti ''<thinking>'' @ [Many False 0 AnyC] @ liti ''</thinking>'') []
       (jsReplaceWith (liti ''<think>'' @ [Many False 0 AnyC] @ liti ''</think>'') [] t)"

definition codeBlockRegex :: "atom list" where
  \<comment> \<open>\<open>/```([\s\S]*?)```/g\<close>\<close>
  "codeBlockRegex = lit ''```'' @ [Mark, Many False 0 AnyC, Mark] @ lit ''```''"

text \<open>The contents \<open>match[1].trim()\<close> of the code blocks, in order.\<close>

definition codeBlocks :: "jstring \<Rightarrow> jstring list" where
  "codeBlocks t = map (\<lambda>(m, ms). trim (group1 ms)) (jsMatchAll codeBlockRegex t)"

text \<open>A header followed by its separator line: \<open>/\<dots>\s*\n\s*---/i\<close>.\<close>

definition hdr :: "string \<Rightarrow> atom list" where
  "hdr name = liti name @ [Many True 0 Space, One (Ch CHR 0x0A), Many True 0 Space] @ lit ''---''"

definition blankLine :: "atom list" where
  \<comment> \<open>\<open>\n\s*\n\s*\<close>\<close>
  "blankLine = [One (Ch CHR 0x0A), Many True 0 Space, One (Ch CHR 0x0A), Many True 0 Space]"

definition hasMultipleSections :: "jstring \<Rightarrow> bool" where
  "hasMultipleSections content \<longleftrightarrow>
     jsTest (hdr ''Stats'') content \<and>
     (jsTest (hdr ''Info Box'') content \<or> jsTest (hdr ''Present Characters'') content)"

definition statsMatchRx :: "atom list" where
  \<comment> \<open>\<open>/(User )?Stats\s*\n\s*---[\s\S]*?(?=\n\s*\n\s*(Info Box|Present Characters)|$)/i\<close>\<close>
  "statsMatchRx =
     [Alt (liti ''User '') []] @ hdr ''Stats'' @
     [Many False 0 AnyC,
      Ahead [Alt (blankLine @ [Alt (liti ''Info Box'') (liti ''Present Characters'')])
                 [Eol False]]]"

definition infoBoxMatchRx :: "atom list" where
  \<comment> \<open>\<open>/Info Box\s*\n\s*---[\s\S]*?(?=\n\s*\n\s*Present Characters|$)/i\<close>\<close>
  "infoBoxMatchRx =
     hdr ''Info Box'' @
     [Many False 0 AnyC, Ahead [Alt (blankLine @ liti ''Present Characters'') [Eol False]]]"

definition charactersMatchRx :: "atom list" where
  \<comment> \<open>\<open>/Present Characters\s*\n\s*---[\s\S]*$/i\<close>\<close>
  "charactersMatchRx = hdr ''Present Characters'' @ [Many True 0 AnyC, Eol False]"

definition percentRx :: "string \<Rightarrow> atom list" where
  \<comment> \<open>\<open>/Health:\s*\d+%/i\<close>, \<open>/Energy:\s*\d+%/i\<close>\<close>
  "percentRx label = liti label @ [Many True 0 Space, Many True 1 Digit, One (Ch CHR ''%'')]"

definition numberedLineRx :: "char \<Rightarrow> atom list" where
  \<comment> \<open>\<open>/^1\.\s+\w+/m\<close>, and the same for 2 and 3\<close>
  "numberedLineRx d = [Bol True, One (Ch d), One (Ch CHR ''.''), Many True 1 Space, Many True 1 WordC]"

definition isStats :: "jstring \<Rightarrow> bool" where
  "isStats content \<longleftrightarrow>
     jsTest (hdr ''Stats'') content \<or>
     jsTest (hdr ''User Stats'') content \<or>
     jsTest (hdr ''Player Stats'') content \<or>
     (jsTest (percentRx ''Health:'') content \<and> jsTest (percentRx ''Energy:'') content)"

definition isInfoBox :: "jstring \<Rightarrow> bool" where
  "isInfoBox content \<longleftrightarrow>
     jsTest (hdr ''Info Box'') content \<or>
     jsTest (hdr ''Scene Info'') content \<or>
     jsTest (hdr ''Information'') content \<or>
     (jsTest (liti ''Date:'') content \<and> jsTest (liti ''Location:'') content
        \<and> jsTest (liti ''Time:'') content)"

definition isCharacters :: "jstring \<Rightarrow> bool" where
  "isCharacters content \<longleftrightarrow>
     jsTest (hdr ''Present Characters'') content \<or>
     jsTest (hdr ''Characters'') content \<or>
     jsTest (hdr ''Character Thoughts'') content \<or>
     (jsTest [Bol True, One (Ch CHR ''-''), Many True 1 Space, Many True 1 WordC] content
        \<and> jsTest (liti ''Details:'') content)"

definition isActionSuggestions :: "jstring \<Rightarrow> bool" where
  "isActionSuggestions content \<longleftrightarrow>
     jsTest (liti ''Action Suggestion'' @ [Alt [One (Ci CHR ''s'')] []]
               @ [Many True 0 Space, One (Ch CHR 0x0A), Many True 0 Space] @ lit ''---'') content \<or>
     jsTest (liti ''Suggested Action'' @ [Alt [One (Ci CHR ''s'')] []]
               @ [Many True 0 Space, One (Ch CHR 0x0A), Many True 0 Space] @ lit ''---'') content \<or>
     (jsTest (numberedLineRx CHR ''1'') content \<and> jsTest (numberedLineRx CHR ''2'') content
        \<and> jsTest (numberedLineRx CHR ''3'') content)"

text \<open>The three extractions from a combined block, each guarded by \<open>!result.field\<close>.\<close>

definition extractStats :: "jstring \<Rightarrow> snapshot \<Rightarrow> snapshot" where
  "extractStats content result =
     (case jsMatch statsMatchRx content of
        None \<Rightarrow> result
      | Some (m, ms) \<Rightarrow>
          if \<not> truthy (userStats result)
          then result\<lparr>userStats := Some (stripBrackets (trim m))\<rparr> else result)"

definition extractInfoBox :: "jstring \<Rightarrow> snapshot \<Rightarrow> snapshot" where
  "extractInfoBox content result =
     (case jsMatch infoBoxMatchRx content of
        None \<Rightarrow> result
      | Some (m, ms) \<Rightarrow>
          if \<not> truthy (infoBox result)
          then result\<lparr>infoBox := Some (stripBrackets (trim m))\<rparr> else result)"

definition extractCharacters :: "jstring \<Rightarrow> snapshot \<Rightarrow> snapshot" where
  "extractCharacters content result =
     (case jsMatch charactersMatchRx content of
        None \<Rightarrow> result
      | Some (m, ms) \<Rightarrow>
          if \<not> truthy (characterThoughts result)
          then result\<lparr>characterThoughts := Some (stripBrackets (trim m))\<rparr> else result)"

text \<open>The body of the loop over the code blocks.\<close>

definition parseBlock :: "snapshot \<Rightarrow> jstring \<Rightarrow> snapshot" where
  "parseBlock result content =
     (if hasMultipleSections content then
        extractCharacters content (extractInfoBox content (extractStats content result))
      else if isStats content \<and> \<not> truthy (userStats result) then
        result\<lparr>userStats := Some (stripBrackets content)\<rparr>
      else if isInfoBox content \<and> \<not> truthy (infoBox result) then
        result\<lparr>infoBox := Some (stripBrackets content)\<rparr>
      else if isCharacters content \<and> \<not> truthy (characterThoughts result) then
        result\<lparr>characterThoughts := Some (stripBrackets content)\<rparr>
      else if isActionSuggestions content \<and> \<not> truthy (actionSuggestions result) then
        result\<lparr>actionSuggestions := Some content\<rparr>
      else result)"

definition parseResponse :: "jstring \<Rightarrow> snapshot" where
  "parseResponse responseText =
     foldl parseBlock nullSnapshot (codeBlocks (stripThinking responseText))"

subsection \<open>parseActionSuggestions\<close>

definition numberedPattern :: "atom list" where
  \<comment> \<open>\<open>/^\s*(\d+)\.\s*(.+?)$/gm\<close>\<close>
  "numberedPattern =
     [Bol True, Many True 0 Space, Mark, Many True 1 Digit, Mark, One (Ch CHR ''.''),
      Many True 0 Space, Mark, Many False 1 Dot, Mark, Eol True]"

definition bulletPattern :: "atom list" where
  \<comment> \<open>\<open>/^\s*[-\<bullet>*]\s*(.+?)$/gm\<close>; the bullet is U+2022\<close>
  "bulletPattern =
     [Bol True, Many True 0 Space, One (Or (Ch CHR ''-'') (Or (Cu 0x2022) (Ch CHR ''*''))),
      Many True 0 Space, Mark, Many False 1 Dot, Mark, Eol True]"






section \<open>The tracker commit logic (state.js, sillytavern.js, the prompt injector)\<close>

text \<open>
  A chat message as the handlers read it. \<open>swipe_id\<close> is \<open>None\<close> when the field is
  undefined. \<open>swipes\<close> is the array of alternate responses, whose elements may be
  \<open>undefined\<close> or \<open>null\<close>. \<open>rpg_companion_swipes\<close> is \<open>message.extra.rpg_companion_swipes\<close>,
  the per-swipe ledger; it is \<open>None\<close> while \<open>extra\<close> or the object is missing.
\<close>

datatype slot = Undefined | Null | Text jstring

record message =
  is_user :: bool
  mes :: jstring
  swipe_id :: "nat option"
  swipes :: "slot list option"
  rpg_companion_swipes :: "(nat \<rightharpoonup> snapshot) option"

text \<open>
  The module state of state.js that the handlers read and write, with the host's chat
  array. Rendering, prompt injection, persistence and \<open>parseUserStats\<close> write none of
  these fields and are left out.
\<close>

record state =
  enabled :: bool
  generationMode :: string
  lastGeneratedData :: tracker
  committedTrackerData :: tracker
  lastActionWasSwipe :: bool
  isGenerating :: bool
  isPlotProgression :: bool
  chat :: "message list"

definition currentSwipeId :: "message \<Rightarrow> nat" where
  \<comment> \<open>\<open>message.swipe_id || 0\<close>\<close>
  "currentSwipeId m = (case swipe_id m of None \<Rightarrow> 0 | Some n \<Rightarrow> n)"

definition slotAt :: "slot list \<Rightarrow> nat \<Rightarrow> slot" where
  "slotAt sw i = (if i < length sw then sw ! i else Undefined)"

definition ledgerEntry :: "message \<Rightarrow> snapshot option" where
  \<comment> \<open>\<open>message.extra && message.extra.rpg_companion_swipes
        && message.extra.rpg_companion_swipes[currentSwipeId]\<close>\<close>
  "ledgerEntry m =
     (case rpg_companion_swipes m of None \<Rightarrow> None | Some l \<Rightarrow> l (currentSwipeId m))"

definition trackerOf :: "snapshot \<Rightarrow> tracker" where
  "trackerOf p = \<lparr>userStats = userStats p, infoBox = infoBox p,
                  characterThoughts = characterThoughts p\<rparr>"

definition orNull :: "jstring option \<Rightarrow> jstring option" where
  \<comment> \<open>\<open>value || null\<close>\<close>
  "orNull v = (if truthy v then v else None)"

definition onMessageSent :: "state \<Rightarrow> state" where
  "onMessageSent st = (if \<not> enabled st then st else st\<lparr>lastActionWasSwipe := False\<rparr>)"

subsection \<open>onGenerationStarted\<close>

definition commitLastGenerated :: "state \<Rightarrow> state" where
  "commitLastGenerated st =
     st\<lparr>committedTrackerData :=
          \<lparr>userStats = userStats (lastGeneratedData st),
           infoBox = infoBox (lastGeneratedData st),
           characterThoughts = characterThoughts (lastGeneratedData st)\<rparr>\<rparr>"

text \<open>\<open>quietImage\<close> is \<open>data?.quietImage\<close>, set by the host on image generation requests.\<close>

definition onGenerationStarted :: "bool \<Rightarrow> state \<Rightarrow> state" where
  "onGenerationStarted quietImage st =
     (if quietImage then st
      else if \<not> enabled st then st
      else
        (let st1 =
           (if generationMode st = ''separate'' \<and> \<not> isGenerating st
            then (if \<not> lastActionWasSwipe st then commitLastGenerated st else st)
            else st)
         in if generationMode st1 = ''together''
            then (if \<not> lastActionWasSwipe st1 then commitLastGenerated st1 else st1)
            else st1))"

subsection \<open>onMessageReceived\<close>

text \<open>The replacements that take the tracker blocks out of the message text.\<close>

definition fencedRx :: "atom list \<Rightarrow> atom list" where
  \<comment> \<open>\<open>/```[^`]*?HEADER\s*\n\s*---[^`]*?```\s*/gi\<close>\<close>
  "fencedRx header =
     lit ''```'' @ [Many False 0 (Neg (Ch CHR 0x60))] @ header
       @ [Many True 0 Space, One (Ch CHR 0x0A), Many True 0 Space] @ lit ''---''
       @ [Many False 0 (Neg (Ch CHR 0x60))] @ lit ''```'' @ [Many True 0 Space]"

definition dividerRx :: "atom list" where
  \<comment> \<open>\<open>/^\s*---\s*$/gm\<close>\<close>
  "dividerRx = [Bol True, Many True 0 Space] @ lit ''---'' @ [Many True 0 Space, Eol True]"

definition newlinesRx :: "atom list" where
  \<comment> \<open>\<open>/\n{3,}/g\<close>\<close>
  "newlinesRx = [Many True 3 (Ch CHR 0x0A)]"

definition removeTrackerBlocks :: "jstring \<Rightarrow> jstring" where
  "removeTrackerBlocks t =
     jsReplaceWith (fencedRx (liti ''Suggested Action'' @ [Alt [One (Ci CHR ''s'')] []])) []
       (jsReplaceWith (fencedRx (liti ''Action Suggestion'' @ [Alt [One (Ci CHR ''s'')] []])) []
         (jsReplaceWith (fencedRx (liti ''Present Characters'')) []
           (jsReplaceWith (fencedRx (liti ''Info Box'')) []
             (jsReplaceWith (fencedRx (liti ''Stats'')) [] t))))"

definition cleanMessage :: "jstring \<Rightarrow> jstring" where
  \<comment> \<open>the value of \<open>cleanedMessage.trim()\<close>\<close>
  "cleanMessage responseText =
     trim (jsReplaceWith newlinesRx (str ''\<newline>\<newline>'')
             (jsReplaceWith dividerRx [] (removeTrackerBlocks responseText)))"

definition updateLastGenerated :: "snapshot \<Rightarrow> tracker \<Rightarrow> tracker" where
  "updateLastGenerated parsedData lg =
     (let lg1 = (if truthy (userStats parsedData)
                 then lg\<lparr>userStats := userStats parsedData\<rparr> else lg);
          lg2 = (if truthy (infoBox parsedData)
                 then lg1\<lparr>infoBox := infoBox parsedData\<rparr> else lg1)
      in if truthy (characterThoughts parsedData)
         then lg2\<lparr>characterThoughts := characterThoughts parsedData\<rparr> else lg2)"

definition recordSwipe :: "snapshot \<Rightarrow> message \<Rightarrow> message" where
  "recordSwipe parsedData m =
     m\<lparr>rpg_companion_swipes :=
         Some ((case rpg_companion_swipes m of None \<Rightarrow> Map.empty | Some l \<Rightarrow> l)
                 (currentSwipeId m \<mapsto> parsedData))\<rparr>"

definition autoCommit :: "snapshot \<Rightarrow> tracker \<Rightarrow> tracker" where
  "autoCommit parsedData cm =
     (if \<not> truthy (userStats cm) \<and> \<not> truthy (infoBox cm) \<and> \<not> truthy (characterThoughts cm)
      then \<lparr>userStats = userStats parsedData, infoBox = infoBox parsedData,
            characterThoughts = characterThoughts parsedData\<rparr>
      else cm)"

definition storeCleaned :: "jstring \<Rightarrow> message \<Rightarrow> message" where
  "storeCleaned cleaned m =
     m\<lparr>mes := cleaned,
        swipes :=
          (case swipes m of
             None \<Rightarrow> None
           | Some sw \<Rightarrow>
               if slotAt sw (currentSwipeId m) \<noteq> Undefined
               then Some (sw[currentSwipeId m := Text cleaned]) else Some sw)\<rparr>"

text \<open>The together-mode branch, for the last message of the chat.\<close>

definition receiveTogether :: "state \<Rightarrow> message \<Rightarrow> state" where
  "receiveTogether st lastMessage =
     (let parsedData = parseResponse (mes lastMessage)
      in st\<lparr>lastGeneratedData := updateLastGenerated parsedData (lastGeneratedData st),
            committedTrackerData := autoCommit parsedData (committedTrackerData st),
            chat := (chat st)[length (chat st) - 1 :=
                       storeCleaned (cleanMessage (mes lastMessage))
                         (recordSwipe parsedData lastMessage)]\<rparr>)"

text \<open>
  In separate mode with \<open>autoUpdate\<close> the handler only schedules \<open>updateRPGData\<close> (another
  module) on a timer; nothing of the state changes in the handler itself.
\<close>

definition onMessageReceived :: "state \<Rightarrow> state" where
  "onMessageReceived st =
     (if \<not> enabled st then st
      else
        (let st1 =
           (if generationMode st = ''together''
            then (case chat st of
                    [] \<Rightarrow> st
                  | _ # _ \<Rightarrow> if \<not> is_user (last (chat st))
                             then receiveTogether st (last (chat st)) else st)
            else st);
             st2 = (if lastActionWasSwipe st1 then st1\<lparr>lastActionWasSwipe := False\<rparr> else st1)
         in if isPlotProgression st2 then st2\<lparr>isPlotProgression := False\<rparr> else st2))"

subsection \<open>onMessageSwiped\<close>

definition isExistingSwipe :: "message \<Rightarrow> bool" where
  "isExistingSwipe m =
     (case swipes m of
        None \<Rightarrow> False
      | Some sw \<Rightarrow>
          (case slotAt sw (currentSwipeId m) of
             Undefined \<Rightarrow> False
           | Null \<Rightarrow> False
           | Text t \<Rightarrow> 0 < length t))"

definition loadSwipe :: "snapshot \<Rightarrow> tracker \<Rightarrow> tracker" where
  "loadSwipe swipeData lg =
     lg\<lparr>userStats := orNull (userStats swipeData),
        infoBox := orNull (infoBox swipeData),
        characterThoughts := orNull (characterThoughts swipeData)\<rparr>"

definition onMessageSwiped :: "nat \<Rightarrow> state \<Rightarrow> state" where
  "onMessageSwiped messageIndex st =
     (if \<not> enabled st then st
      else if length (chat st) \<le> messageIndex then st
      else if is_user (chat st ! messageIndex) then st
      else
        (let message = chat st ! messageIndex;
             st1 = (if \<not> isExistingSwipe message then st\<lparr>lastActionWasSwipe := True\<rparr> else st)
         in case ledgerEntry message of
              Some swipeData \<Rightarrow>
                st1\<lparr>lastGeneratedData := loadSwipe swipeData (lastGeneratedData st1)\<rparr>
            | None \<Rightarrow> st1))"

section \<open>Reasoning about the matcher\<close>

text \<open>
  A lower bound on the number of characters a match consumes. A pattern with a positive
  bound never matches the empty string, so an \<open>exec\<close> loop over it always advances.
\<close>

fun minLen :: "atom list \<Rightarrow> nat" where
  "minLen [] = 0"
| "minLen (One c # k) = Suc (minLen k)"
| "minLen (Many g n c # k) = n + minLen k"
| "minLen (Alt a b # k) = min (minLen a) (minLen b) + minLen k"
| "minLen (a # k) = minLen k"

lemma minLen_append: "minLen (a @ k) = minLen a + minLen k"
  by (induction a rule: minLen.induct) auto

lemma rmatch_consumes:
  "rmatch k p s = Some (ms, r) \<Longrightarrow> length r + minLen k \<le> length s"
proof (induction k p s arbitrary: ms r rule: rmatch.induct)
  case (1 p s)
  then show ?case by simp
next
  case (2 c k p s)
  then show ?case by (cases s) (auto split: if_splits)
next
  case (3 g n c k p s)
  show ?case
  proof (cases s)
    case Nil
    with 3 show ?thesis by (auto split: if_splits option.splits)
  next
    case (Cons x xs)
    with 3 show ?thesis
      by (fastforce split: if_splits option.splits)
  qed
next
  case (4 m k p s)
  then show ?case by (auto split: if_splits)
next
  case (5 m k p s)
  then show ?case by (auto split: if_splits)
next
  case (6 a b k p s)
  then show ?case by (fastforce simp: minLen_append split: option.splits)
next
  case (7 a k p s)
  then show ?case by (auto split: option.splits)
next
  case (8 k p s)
  then show ?case by (auto split: option.splits)
qed

text \<open>
  From here on the equation for a quantified class is unfolded by hand only.
\<close>

text \<open>
  \<open>holds Q k\<close>: wherever the sequence \<open>k\<close> matches, the text it starts at satisfies \<open>Q\<close>.
  For a property that survives a longer text in front (\<open>upward\<close>), it passes from the
  tail of a pattern to the whole pattern, atom by atom.
\<close>

definition holds :: "(jstring \<Rightarrow> bool) \<Rightarrow> atom list \<Rightarrow> bool" where
  "holds Q k \<longleftrightarrow> (\<forall>p s res. rmatch k p s = Some res \<longrightarrow> Q s)"

definition upward :: "(jstring \<Rightarrow> bool) \<Rightarrow> bool" where
  "upward Q \<longleftrightarrow> (\<forall>x xs. Q xs \<longrightarrow> Q (x # xs))"


declare rmatch.simps(3) [simp del]


lemma upwardD: "upward Q \<Longrightarrow> Q xs \<Longrightarrow> Q (x # xs)"
  by (auto simp: upward_def)

lemma upward_append: "upward Q \<Longrightarrow> Q xs \<Longrightarrow> Q (u @ xs)"
  by (induction u) (auto dest: upwardD)

lemma holds_mono: "holds Q k \<Longrightarrow> (\<And>s. Q s \<Longrightarrow> Q' s) \<Longrightarrow> holds Q' k"
  by (auto simp: holds_def)

lemma holds_One: "holds Q k \<Longrightarrow> upward Q \<Longrightarrow> holds Q (One c # k)"
  unfolding holds_def
  by (auto split: list.splits if_splits dest: upwardD)








lemma holds_lit: "holds Q k \<Longrightarrow> upward Q \<Longrightarrow> holds Q (lit L @ k)"
  by (induction L) (auto simp: lit_def intro: holds_One)

lemma holds_liti: "holds Q k \<Longrightarrow> upward Q \<Longrightarrow> holds Q (liti L @ k)"
  by (induction L) (auto simp: liti_def intro: holds_One)




















section \<open>Whitespace after stripBrackets\<close>














lemma inCls_Space [simp]: "inCls Space = isSpace"
  by (rule ext) simp




















lemma matchAllFrom_nonempty:
  assumes "0 < minLen r"
  shows "(m, ms) \<in> set (matchAllFrom r n p s) \<Longrightarrow> m \<noteq> []"
proof (induction s arbitrary: n p)
  case Nil
  have "rmatch r p [] = None"
  proof (rule ccontr)
    assume "rmatch r p [] \<noteq> None"
    then obtain ms' rest where "rmatch r p [] = Some (ms', rest)" by auto
    from rmatch_consumes [OF this] assms show False by simp
  qed
  then have e: "matchAllFrom r n p [] = []" by simp
  from Nil.prems have False unfolding e by (simp only: list.set empty_iff)
  then show ?case ..
next
  case (Cons x xs)
  show ?case
  proof (cases "0 < n")
    case True
    with Cons show ?thesis by auto
  next
    case False
    show ?thesis
    proof (cases "rmatch r p (x # xs)")
      case None
      with False Cons show ?thesis by auto
    next
      case (Some res)
      obtain ms' rest where res: "res = (ms', rest)" by (cases res)
      from rmatch_consumes [OF Some [unfolded res]] assms
      have "length rest < length (x # xs)" by simp
      then have "taken (x # xs) rest \<noteq> []" by (auto simp: taken_def)
      with False Cons Some res show ?thesis by auto
    qed
  qed
qed

section \<open>The action suggestion loop as a filter\<close>







section \<open>Properties of the response parser\<close>



definition fallbackReply :: jstring where
  "fallbackReply = (str ''Hi ```\<newline>Health: 80%\<newline>Energy: 60%\<newline>```'')"



subsection \<open>Texts without tracker blocks\<close>







subsection \<open>Parsing the cleaned text again\<close>

lemma parse_fallbackReply:
  "parseResponse fallbackReply
     = nullSnapshot\<lparr>userStats := Some (str ''Health: 80%\<newline>Energy: 60%'')\<rparr>"
  by code_simp

lemma clean_fallbackReply: "cleanMessage fallbackReply = fallbackReply"
  by code_simp

text \<open>
  Claim C7 does not hold of the code. The block of \<open>fallbackReply\<close> has no header; the
  parser takes it for the stats section by its \<open>Health\<close> and \<open>Energy\<close> lines, while the
  cleaning only removes blocks with one of the five headers. The cleaned text is the
  reply itself, and parsing it again extracts the same stats.
\<close>

theorem reparse_after_cleaning_finds_tracker:
  "userStats (parseResponse fallbackReply) = Some (str ''Health: 80%\<newline>Energy: 60%'')
   \<and> cleanMessage fallbackReply = fallbackReply
   \<and> userStats (parseResponse (cleanMessage fallbackReply))
        = Some (str ''Health: 80%\<newline>Energy: 60%'')
   \<and> parseResponse (cleanMessage fallbackReply) \<noteq> nullSnapshot"
  by (simp add: parse_fallbackReply clean_fallbackReply nullSnapshot_def)

subsection \<open>stripBrackets applied twice\<close>




subsection \<open>Action suggestions\<close>

text \<open>
  The patterns of the two \<open>exec\<close> iterations consume at least three and two characters,
  so every match is non-empty and each iteration advances through the text.
\<close>

lemma exec_patterns_advance: "0 < minLen numberedPattern" "0 < minLen bulletPattern"
  by (simp_all add: numberedPattern_def bulletPattern_def)




section \<open>Sample replies and states\<close>

definition assistantMsg :: "jstring \<Rightarrow> message" where
  "assistantMsg t = \<lparr>is_user = False, mes = t, swipe_id = Some 0, swipes = Some [Text t],
                      rpg_companion_swipes = None\<rparr>"

text \<open>
  A chat in together mode whose only message is the assistant reply \<open>t\<close>, just generated;
  the panel still shows older stats and nothing is committed yet.
\<close>

definition baseState :: "jstring \<Rightarrow> state" where
  "baseState t =
     \<lparr>enabled = True, generationMode = ''together'',
      lastGeneratedData =
        \<lparr>userStats = Some (str ''Health: 50%''), infoBox = None, characterThoughts = None\<rparr>,
      committedTrackerData = \<lparr>userStats = None, infoBox = None, characterThoughts = None\<rparr>,
      lastActionWasSwipe = False, isGenerating = False, isPlotProgression = False,
      chat = [assistantMsg t]\<rparr>"

definition statsReply :: jstring where
  "statsReply = (str ''Hi ```\<newline>Stats\<newline>---\<newline>Health: 80%\<newline>```'')"


section \<open>Properties of the tracker commit logic\<close>

lemma parse_hello: "parseResponse (str ''Hello'') = nullSnapshot"
  by code_simp

lemma parse_statsReply:
  "parseResponse statsReply = nullSnapshot\<lparr>userStats := Some (str ''Stats\<newline>---\<newline>Health: 80%'')\<rparr>"
  by code_simp




lemma currentSwipeId_recordSwipe [simp]: "currentSwipeId (recordSwipe p m) = currentSwipeId m"
  by (simp add: currentSwipeId_def recordSwipe_def)

lemma currentSwipeId_storeCleaned [simp]: "currentSwipeId (storeCleaned c m) = currentSwipeId m"
  by (simp add: currentSwipeId_def storeCleaned_def)

lemma ledgerEntry_storeCleaned [simp]: "ledgerEntry (storeCleaned c m) = ledgerEntry m"
proof -
  have "rpg_companion_swipes (storeCleaned c m) = rpg_companion_swipes m"
    by (simp add: storeCleaned_def)
  then show ?thesis by (simp add: ledgerEntry_def split: option.splits)
qed

lemma ledgerEntry_recordSwipe [simp]: "ledgerEntry (recordSwipe p m) = Some p"
  by (simp add: ledgerEntry_def recordSwipe_def currentSwipeId_def)

lemma received_together:
  assumes "enabled st" and "generationMode st = ''together''" and "chat st \<noteq> []"
    and "\<not> is_user (last (chat st))"
  shows "lastGeneratedData (onMessageReceived st)
           = updateLastGenerated (parseResponse (mes (last (chat st)))) (lastGeneratedData st)"
    and "committedTrackerData (onMessageReceived st)
           = autoCommit (parseResponse (mes (last (chat st)))) (committedTrackerData st)"
    and "last (chat (onMessageReceived st))
           = storeCleaned (cleanMessage (mes (last (chat st))))
               (recordSwipe (parseResponse (mes (last (chat st)))) (last (chat st)))"
proof -
  have c: "(case chat st of [] \<Rightarrow> st
            | _ # _ \<Rightarrow> if \<not> is_user (last (chat st))
                       then receiveTogether st (last (chat st)) else st)
           = receiveTogether st (last (chat st))"
    using assms(3,4) by (cases "chat st") simp_all
  have l: "last ((chat st)[length (chat st) - Suc 0 := m]) = m" for m
    using assms(3) by (simp add: last_list_update)
  show "lastGeneratedData (onMessageReceived st)
           = updateLastGenerated (parseResponse (mes (last (chat st)))) (lastGeneratedData st)"
    using assms(1,2) by (simp add: onMessageReceived_def c Let_def receiveTogether_def)
  show "committedTrackerData (onMessageReceived st)
           = autoCommit (parseResponse (mes (last (chat st)))) (committedTrackerData st)"
    using assms(1,2) by (simp add: onMessageReceived_def c Let_def receiveTogether_def)
  show "last (chat (onMessageReceived st))
           = storeCleaned (cleanMessage (mes (last (chat st))))
               (recordSwipe (parseResponse (mes (last (chat st)))) (last (chat st)))"
    using assms(1,2) by (simp add: onMessageReceived_def c Let_def receiveTogether_def l)
qed

lemma received_flag: "enabled st \<Longrightarrow> \<not> lastActionWasSwipe (onMessageReceived st)"
  by (simp add: onMessageReceived_def Let_def)

lemma updateLastGenerated_null [simp]: "updateLastGenerated nullSnapshot lg = lg"
  by (simp add: updateLastGenerated_def nullSnapshot_def truthy_def)




lemma base_facts:
  "enabled (baseState t)" "generationMode (baseState t) = ''together''"
  "chat (baseState t) \<noteq> []" "\<not> is_user (last (chat (baseState t)))"
  "mes (last (chat (baseState t))) = t" "\<not> lastActionWasSwipe (baseState t)"
  by (simp_all add: baseState_def assistantMsg_def)

subsection \<open>Promotion when a generation starts\<close>

text \<open>
  Claim C1, as amended. When a generation starts and the request is not an image
  generation request (\<open>quietImage\<close> unset), with the extension enabled, the pending-swipe
  flag false, and the mode either together, or separate while no tracker update is
  running (\<open>isGenerating\<close> false), the committed tracker data becomes equal to the last
  generated data as it was just before the event, whatever that was.
\<close>

theorem promotion_on_new_message:
  assumes "\<not> quietImage" and "enabled st" and "\<not> lastActionWasSwipe st"
    and "generationMode st = ''together''
         \<or> (generationMode st = ''separate'' \<and> \<not> isGenerating st)"
  shows "committedTrackerData (onGenerationStarted quietImage st) = lastGeneratedData st"
  using assms by (auto simp: onGenerationStarted_def commitLastGenerated_def Let_def)

theorem promotion_on_new_message_witness:
  "enabled (baseState (str ''Hello'')) \<and> \<not> lastActionWasSwipe (baseState (str ''Hello''))
   \<and> generationMode (baseState (str ''Hello'')) = ''together''
   \<and> committedTrackerData (onGenerationStarted False (baseState (str ''Hello'')))
       = \<lparr>userStats = Some (str ''Health: 50%''), infoBox = None, characterThoughts = None\<rparr>"
  using promotion_on_new_message [of False "baseState (str ''Hello'')"]
  by (simp add: baseState_def)

text \<open>
  Claim C1 as stated fails: in separate mode the generation that updates the trackers
  (\<open>isGenerating\<close> true) starts with the flag false and the extension enabled and commits
  nothing, and neither does an image generation request in together mode.
\<close>

theorem promotion_counterexample:
  "enabled ((baseState (str ''Hello''))\<lparr>generationMode := ''separate'', isGenerating := True\<rparr>)
   \<and> \<not> lastActionWasSwipe ((baseState (str ''Hello''))\<lparr>generationMode := ''separate'', isGenerating := True\<rparr>)
   \<and> generationMode ((baseState (str ''Hello''))\<lparr>generationMode := ''separate'', isGenerating := True\<rparr>)
        = ''separate''
   \<and> committedTrackerData
        (onGenerationStarted False
           ((baseState (str ''Hello''))\<lparr>generationMode := ''separate'', isGenerating := True\<rparr>))
       \<noteq> lastGeneratedData ((baseState (str ''Hello''))\<lparr>generationMode := ''separate'', isGenerating := True\<rparr>)
   \<and> committedTrackerData (onGenerationStarted True (baseState (str ''Hello'')))
       \<noteq> lastGeneratedData (baseState (str ''Hello''))"
  by (simp add: baseState_def onGenerationStarted_def)

subsection \<open>A parse that finds nothing\<close>

text \<open>
  Claim C2, as amended. When a generation completes (extension enabled, together mode,
  the last chat message from the assistant) and the parse of that message yields the
  all-null snapshot, the last generated data is left as it was: a field is only assigned
  when the parse has a non-empty value for it. The all-null snapshot is stored in the
  swipe ledger of the message, the committed data is replaced by the parsed (null)
  values only if it was empty on all fields, and the pending-swipe flag ends false.
\<close>

theorem all_null_parse_keeps_lastGenerated:
  assumes "enabled st" and "generationMode st = ''together''" and "chat st \<noteq> []"
    and "\<not> is_user (last (chat st))"
    and "parseResponse (mes (last (chat st))) = nullSnapshot"
  shows "lastGeneratedData (onMessageReceived st) = lastGeneratedData st
       \<and> ledgerEntry (last (chat (onMessageReceived st))) = Some nullSnapshot
       \<and> committedTrackerData (onMessageReceived st)
           = (if \<not> truthy (userStats (committedTrackerData st))
                 \<and> \<not> truthy (infoBox (committedTrackerData st))
                 \<and> \<not> truthy (characterThoughts (committedTrackerData st))
              then \<lparr>userStats = None, infoBox = None, characterThoughts = None\<rparr>
              else committedTrackerData st)
       \<and> \<not> lastActionWasSwipe (onMessageReceived st)"
proof -
  have "autoCommit nullSnapshot cm
          = (if \<not> truthy (userStats cm) \<and> \<not> truthy (infoBox cm) \<and> \<not> truthy (characterThoughts cm)
             then \<lparr>userStats = None, infoBox = None, characterThoughts = None\<rparr> else cm)" for cm
    by (simp add: autoCommit_def nullSnapshot_def)
  then show ?thesis
    using received_together [OF assms(1-4)] received_flag [OF assms(1)]
    by (simp add: assms(5))
qed

theorem all_null_parse_witness:
  "parseResponse (mes (last (chat (baseState (str ''Hello''))))) = nullSnapshot
   \<and> lastGeneratedData (onMessageReceived (baseState (str ''Hello'')))
       = \<lparr>userStats = Some (str ''Health: 50%''), infoBox = None, characterThoughts = None\<rparr>
   \<and> ledgerEntry (last (chat (onMessageReceived (baseState (str ''Hello''))))) = Some nullSnapshot"
  using all_null_parse_keeps_lastGenerated [of "baseState (str ''Hello'')"]
  by (simp add: baseState_def assistantMsg_def parse_hello)

text \<open>
  Claim C2 as stated fails: the reply \<open>Hello\<close> parses to the all-null snapshot, and the
  last generated data is not overwritten with it.
\<close>

theorem all_null_parse_counterexample:
  "enabled (baseState (str ''Hello'')) \<and> generationMode (baseState (str ''Hello'')) = ''together''
   \<and> parseResponse (mes (last (chat (baseState (str ''Hello''))))) = nullSnapshot
   \<and> lastGeneratedData (onMessageReceived (baseState (str ''Hello'')))
       \<noteq> \<lparr>userStats = None, infoBox = None, characterThoughts = None\<rparr>"
  by (simp add: baseState_def assistantMsg_def parse_hello onMessageReceived_def
        receiveTogether_def)

subsection \<open>Navigating to an existing swipe\<close>





subsection \<open>What the end of a generation records\<close>




subsection \<open>The first parse is committed at once\<close>

text \<open>
  Claim C5. When a parse completes, that is, when a generation completes with the
  extension enabled in together mode and the last chat message is from the assistant,
  and the committed data is empty on all three fields (null or the empty string), the
  committed data is set to the three tracker fields of the snapshot just parsed.
\<close>

theorem first_parse_auto_promotes:
  assumes "enabled st" and "generationMode st = ''together''" and "chat st \<noteq> []"
    and "\<not> is_user (last (chat st))"
    and "\<not> truthy (userStats (committedTrackerData st))"
    and "\<not> truthy (infoBox (committedTrackerData st))"
    and "\<not> truthy (characterThoughts (committedTrackerData st))"
  shows "committedTrackerData (onMessageReceived st)
           = trackerOf (parseResponse (mes (last (chat st))))"
  using received_together(2) [OF assms(1-4)] assms(5-7)
  by (simp add: autoCommit_def trackerOf_def)

theorem first_parse_auto_promotes_witness:
  "committedTrackerData (baseState statsReply)
     = \<lparr>userStats = None, infoBox = None, characterThoughts = None\<rparr>
   \<and> committedTrackerData (onMessageReceived (baseState statsReply))
       = \<lparr>userStats = Some (str ''Stats\<newline>---\<newline>Health: 80%''), infoBox = None,
          characterThoughts = None\<rparr>"
  using first_parse_auto_promotes [of "baseState statsReply"]
  by (simp add: base_facts parse_statsReply trackerOf_def nullSnapshot_def)
     (simp add: baseState_def truthy_def)

subsection \<open>Swipe events that change nothing\<close>

text \<open>
  Claim C10. A swipe event for a message index outside the chat, or for a user message,
  leaves the whole state as it is (last generated data, committed data and the
  pending-swipe flag included). And when the message has no ledger entry for its current
  swipe, the last generated data keeps its value, as does the committed data.
\<close>

theorem swipe_edge_cases_keep_state:
  "(length (chat st) \<le> k \<or> is_user (chat st ! k) \<longrightarrow> onMessageSwiped k st = st)
   \<and> (ledgerEntry (chat st ! k) = None \<longrightarrow>
        lastGeneratedData (onMessageSwiped k st) = lastGeneratedData st
        \<and> committedTrackerData (onMessageSwiped k st) = committedTrackerData st)"
  by (auto simp: onMessageSwiped_def Let_def)

theorem swipe_edge_cases_witness:
  "onMessageSwiped 3 (baseState (str ''Hello'')) = baseState (str ''Hello'')
   \<and> onMessageSwiped 0 ((baseState (str ''Hello''))\<lparr>chat := [assistantMsg (str ''Hello'')\<lparr>is_user := True\<rparr>]\<rparr>)
       = (baseState (str ''Hello''))\<lparr>chat := [assistantMsg (str ''Hello'')\<lparr>is_user := True\<rparr>]\<rparr>
   \<and> ledgerEntry (chat (baseState (str ''Hello'')) ! 0) = None
   \<and> lastGeneratedData (onMessageSwiped 0 (baseState (str ''Hello'')))
       = \<lparr>userStats = Some (str ''Health: 50%''), infoBox = None, characterThoughts = None\<rparr>"
  using swipe_edge_cases_keep_state [of "baseState (str ''Hello'')" 3]
    swipe_edge_cases_keep_state
      [of "(baseState (str ''Hello''))\<lparr>chat := [assistantMsg (str ''Hello'')\<lparr>is_user := True\<rparr>]\<rparr>" 0]
    swipe_edge_cases_keep_state [of "baseState (str ''Hello'')" 0]
  by (simp add: baseState_def assistantMsg_def ledgerEntry_def)

end
